theory Spec2Isabelle
  imports Main
begin

section \<open>The alpine-data model of \<^verbatim>\<open>pkg/lift/data.go\<close>\<close>

text \<open>
  The Go structs of \<^verbatim>\<open>data.go\<close> are records with the source's field names, in the
  source's order. A Go \<^verbatim>\<open>string\<close> is a \<^typ>\<open>string\<close>, a Go \<^verbatim>\<open>int\<close> is an
  \<^typ>\<open>int\<close> (no arithmetic is done on it, so its width plays no part), a slice is a list
  and a pointer to a struct is an \<^typ>\<open>'a option\<close>, \<open>None\<close> being \<^verbatim>\<open>nil\<close>.
  Go's \<^verbatim>\<open>nil\<close> slice is a slice of length 0; it is the list \<open>[]\<close> here, as is an
  allocated slice of length 0.

  Two field names occur in two structs each (\<^verbatim>\<open>Groups\<close> and \<^verbatim>\<open>Password\<close>); they are
  written with their record's name in front.
\<close>

type_synonym MultiString = "string list"

record User =
  Name :: string
  Description :: string
  HomeDir :: string
  Shell :: string
  NoCreateHomeDir :: bool
  PrimaryGroup :: string
  Groups :: MultiString
  System :: bool
  SSHAuthorizedKeys :: "string list"
  Password :: string

record SSHD =
  Port :: int
  ListenAddress :: string
  AuthorizedKeys :: "string list"
  PermitRootLogin :: bool
  PermitEmptyPasswords :: bool
  PasswordAuthentication :: bool

record DRProvision =
  InstallRunner :: bool
  AssetsURL :: string
  Token :: string
  Endpoint :: string
  UUID :: string

record ResolvConfiguration =
  NameServers :: MultiString
  SearchDomains :: MultiString
  Domain :: string

record NTPConfiguration =
  Pools :: MultiString
  Servers :: MultiString

record NetworkSettings =
  HostName :: string
  InterfaceOpts :: string
  ResolvConf :: "ResolvConfiguration option"
  Proxy :: string
  NTP :: "NTPConfiguration option"

record MTAConfiguration =
  Root :: string
  Server :: string
  UseTLS :: bool
  UseSTARTTLS :: bool
  User :: string
  Password :: string
  AuthMethod :: string
  RewriteDomain :: string
  FromLineOverride :: bool

record PackagesConfig =
  Repositories :: MultiString
  Update :: bool
  Upgrade :: bool
  Install :: MultiString
  Uninstall :: MultiString

record WriteFile =
  Encoding :: string
  Content :: string
  ContentURL :: string
  Path :: string
  Owner :: string
  Permissions :: string

record Disk =
  Device :: string
  FileSystemType :: string
  MountPoint :: string

record AlpineData =
  RootPasswd :: string
  MOTD :: string
  Network :: "NetworkSettings option"
  Packages :: "PackagesConfig option"
  DRP :: "DRProvision option"
  SSHDConfig :: "SSHD option"
  Groups :: MultiString
  Users :: "User list"
  RunCMD :: "MultiString list"
  WriteFiles :: "WriteFile list"
  TimeZone :: string
  Keymap :: string
  UnLift :: bool
  ScratchDisk :: string
  Disks :: "Disk list"
  MTA :: "MTAConfiguration option"

subsection \<open>Zero values\<close>

text \<open>
  A Go composite literal gives every field it does not name the zero value of the field's
  type: \<^verbatim>\<open>""\<close>, \<^verbatim>\<open>0\<close>, \<^verbatim>\<open>false\<close>, the \<^verbatim>\<open>nil\<close> slice, the \<^verbatim>\<open>nil\<close> pointer.
\<close>

definition zero_User :: User where
  "zero_User = \<lparr>Name = [], Description = [], HomeDir = [], Shell = [],
     NoCreateHomeDir = False, PrimaryGroup = [], User.Groups = [], System = False,
     SSHAuthorizedKeys = [], User.Password = []\<rparr>"

definition zero_SSHD :: SSHD where
  "zero_SSHD = \<lparr>Port = 0, ListenAddress = [], AuthorizedKeys = [],
     PermitRootLogin = False, PermitEmptyPasswords = False,
     PasswordAuthentication = False\<rparr>"

definition zero_DRProvision :: DRProvision where
  "zero_DRProvision = \<lparr>InstallRunner = False, AssetsURL = [], Token = [],
     Endpoint = [], UUID = []\<rparr>"

definition zero_ResolvConfiguration :: ResolvConfiguration where
  "zero_ResolvConfiguration = \<lparr>NameServers = [], SearchDomains = [], Domain = []\<rparr>"

definition zero_NTPConfiguration :: NTPConfiguration where
  "zero_NTPConfiguration = \<lparr>Pools = [], Servers = []\<rparr>"

definition zero_NetworkSettings :: NetworkSettings where
  "zero_NetworkSettings = \<lparr>HostName = [], InterfaceOpts = [], ResolvConf = None,
     Proxy = [], NTP = None\<rparr>"

definition zero_MTAConfiguration :: MTAConfiguration where
  "zero_MTAConfiguration = \<lparr>Root = [], Server = [], UseTLS = False, UseSTARTTLS = False,
     User = [], MTAConfiguration.Password = [], AuthMethod = [], RewriteDomain = [],
     FromLineOverride = False\<rparr>"

definition zero_PackagesConfig :: PackagesConfig where
  "zero_PackagesConfig = \<lparr>Repositories = [], Update = False, Upgrade = False,
     Install = [], Uninstall = []\<rparr>"

definition zero_WriteFile :: WriteFile where
  "zero_WriteFile = \<lparr>Encoding = [], Content = [], ContentURL = [], Path = [],
     Owner = [], Permissions = []\<rparr>"

definition zero_Disk :: Disk where
  "zero_Disk = \<lparr>Device = [], FileSystemType = [], MountPoint = []\<rparr>"

definition zero_AlpineData :: AlpineData where
  "zero_AlpineData = \<lparr>RootPasswd = [], MOTD = [], Network = None, Packages = None,
     DRP = None, SSHDConfig = None, AlpineData.Groups = [], Users = [], RunCMD = [],
     WriteFiles = [], TimeZone = [], Keymap = [], UnLift = False, ScratchDisk = [],
     Disks = [], MTA = None\<rparr>"

subsection \<open>\<^verbatim>\<open>MultiString.UnmarshalYAML\<close>\<close>

text \<open>
  The function receives the decode source as a callback
  \<^verbatim>\<open>unmarshal func(interface{}) error\<close> and calls it on a pointer to a \<^verbatim>\<open>[]string\<close>
  and, if that fails, on a pointer to a \<^verbatim>\<open>string\<close>. The callback is a parameter of the
  model: one component for each of the two target types it is called with. A component
  takes the value the target holds before the call and returns the error (\<open>None\<close> is
  \<^verbatim>\<open>nil\<close>) with the value the target holds after the call, so a callback that has
  written part of its target before it fails is covered. The second component is the
  callback as it behaves when it is called after the first attempt has failed. The type
  of errors is a parameter. A callback that panics or does not return is outside the
  model.
\<close>

record 'e unmarshal =
  into_strings :: "string list \<Rightarrow> 'e option \<times> string list"
  into_string :: "string \<Rightarrow> 'e option \<times> string"

text \<open>
  The model takes the value of \<^verbatim>\<open>*ms\<close> before the call and returns the error with the
  value of \<^verbatim>\<open>*ms\<close> after it. The locals \<^verbatim>\<open>values\<close> and \<^verbatim>\<open>s\<close> start at their zero
  values.
\<close>

definition UnmarshalYAML :: "MultiString \<Rightarrow> 'e unmarshal \<Rightarrow> 'e option \<times> MultiString" where
  "UnmarshalYAML ms unmarshal =
     (case into_strings unmarshal [] of
        (Some err, values) \<Rightarrow>
          (case into_string unmarshal [] of
             (Some err', s) \<Rightarrow> (Some err', ms)
           | (None, s) \<Rightarrow> (None, [s]))
      | (None, values) \<Rightarrow> (None, values))"

subsection \<open>\<^verbatim>\<open>InitAlpineData\<close>\<close>

definition InitAlpineData :: AlpineData where
  "InitAlpineData = zero_AlpineData
     \<lparr>UnLift := True,
      TimeZone := ''UTC'',
      Keymap := ''us us'',
      Network := Some (zero_NetworkSettings\<lparr>HostName := ''alpine''\<rparr>),
      SSHDConfig := Some (zero_SSHD
        \<lparr>Port := 22,
         ListenAddress := ''0.0.0.0'',
         PermitRootLogin := True,
         PermitEmptyPasswords := False,
         PasswordAuthentication := False\<rparr>),
      DRP := Some (zero_DRProvision\<lparr>InstallRunner := True\<rparr>),
      Packages := Some (zero_PackagesConfig
        \<lparr>Repositories :=
           [''http://dl-cdn.alpinelinux.org/alpine/v3.8/main'',
            ''http://dl-cdn.alpinelinux.org/alpine/v3.8/community'']\<rparr>)\<rparr>"

subsection \<open>\<^verbatim>\<open>strconv.Itoa\<close>\<close>

text \<open>
  \<^verbatim>\<open>strconv.Itoa\<close> of Go's standard library renders an \<^verbatim>\<open>int\<close> in base 10: the digits
  of its absolute value, most significant first and without leading zeros, after a
  \<^verbatim>\<open>-\<close> when it is negative.
\<close>

definition digit :: "nat \<Rightarrow> char" where
  "digit d = ''0123456789'' ! d"

function FormatUint :: "nat \<Rightarrow> string" where
  "FormatUint n =
     (if n < 10 then [digit n] else FormatUint (n div 10) @ [digit (n mod 10)])"
  by pat_completeness auto
termination
  by (relation "measure id") auto

declare FormatUint.simps [simp del]

definition Itoa :: "int \<Rightarrow> string" where
  "Itoa i = (if i < 0 then CHR ''-'' # FormatUint (nat (- i)) else FormatUint (nat i))"

text \<open>Reading a string of decimal digits back, to say what \<open>Itoa\<close> renders.\<close>

definition digit_value :: "char \<Rightarrow> nat" where
  "digit_value c = of_char c - 48"

definition decimal_value :: "string \<Rightarrow> nat" where
  "decimal_value s = foldl (\<lambda>acc c. 10 * acc + digit_value c) 0 s"

definition is_digit :: "char \<Rightarrow> bool" where
  "is_digit c = (c \<in> set ''0123456789'')"

text \<open>
  A string is the decimal rendering of an integer when it is a non-empty string of digits
  without a leading zero (the string \<^verbatim>\<open>0\<close> apart) whose value is the integer's absolute
  value, after a \<^verbatim>\<open>-\<close> when the integer is negative.
\<close>

definition digits_ok :: "string \<Rightarrow> bool" where
  "digits_ok ds = (ds \<noteq> [] \<and> list_all is_digit ds \<and> (hd ds = CHR ''0'' \<longrightarrow> length ds = 1))"

definition is_decimal_of :: "string \<Rightarrow> int \<Rightarrow> bool" where
  "is_decimal_of s i =
     (if i < 0 then s \<noteq> [] \<and> hd s = CHR ''-'' \<and> digits_ok (tl s) \<and> int (decimal_value (tl s)) = - i
      else digits_ok s \<and> int (decimal_value s) = i)"

subsection \<open>\<^verbatim>\<open>boolToYesNo\<close> and \<^verbatim>\<open>getSSHDKVMap\<close>\<close>

definition boolToYesNo :: "bool \<Rightarrow> string" where
  "boolToYesNo b = (if b then ''yes'' else ''no'')"

text \<open>
  Modelled from the spec: the declaration of \<^verbatim>\<open>Lift\<close>, the receiver's type, is missing
  from \<^verbatim>\<open>data.go\<close>. \<^verbatim>\<open>getSSHDKVMap\<close> reads \<^verbatim>\<open>l.Data.SSHDConfig\<close> only, so the type
  is a record with the field \<^verbatim>\<open>Data\<close>, a pointer to the \<^verbatim>\<open>AlpineData\<close> that
  \<^verbatim>\<open>InitAlpineData\<close> returns; the record's extension stands for the fields not seen.
\<close>

record Lift =
  Data :: "AlpineData option"

text \<open>
  Reading a field through a \<^verbatim>\<open>nil\<close> pointer panics in Go. The receiver \<^verbatim>\<open>l\<close>,
  \<^verbatim>\<open>l.Data\<close> and \<^verbatim>\<open>l.Data.SSHDConfig\<close> are pointers, and the panic is a result of the
  model.
\<close>

datatype panic = NilPointerDereference

definition getSSHDKVMap :: "'a Lift_scheme option \<Rightarrow> panic + (string \<rightharpoonup> string)" where
  "getSSHDKVMap l =
     (case l of
        None \<Rightarrow> Inl NilPointerDereference
      | Some lift \<Rightarrow>
          (case Data lift of
             None \<Rightarrow> Inl NilPointerDereference
           | Some data \<Rightarrow>
               (case SSHDConfig data of
                  None \<Rightarrow> Inl NilPointerDereference
                | Some sshd \<Rightarrow>
                    Inr [''Port'' \<mapsto> Itoa (Port sshd),
                         ''ListenAddress'' \<mapsto> ListenAddress sshd,
                         ''PermitRootLogin'' \<mapsto> boolToYesNo (PermitRootLogin sshd),
                         ''PermitEmptyPasswords'' \<mapsto> boolToYesNo (PermitEmptyPasswords sshd),
                         ''PasswordAuthentication'' \<mapsto>
                           boolToYesNo (PasswordAuthentication sshd)])))"

section \<open>Decoding a document\<close>

text \<open>
  \<^verbatim>\<open>data.go\<close> declares the structs and the key of every field (its \<^verbatim>\<open>yaml\<close> tag);
  the decoder that walks a document along these declarations is not in the file. It is
  modelled here from the description of decoding in the specification, field by field
  along the declarations of the source. Every definition of this section says so.
\<close>

text \<open>
  Modelled from the spec: the documents the decoder reads (the input document shape of the
  external interfaces): a scalar string, integer or boolean, a list of nodes, or a
  mapping from keys to nodes. What an explicit null decodes to is left open by the
  specification, so there is no null node.
\<close>

datatype node =
    Scalar_string string
  | Scalar_int int
  | Scalar_bool bool
  | Sequence "node list"
  | Mapping "(string \<times> node) list"

text \<open>
  Modelled from the spec: the one kind of error of the error taxonomy, raised when a
  source value does not match the declared type. It carries the shape that was expected.
\<close>

datatype error = DecodeError string

text \<open>
  Modelled from the spec: propagation of a failure. The first decoding failure is the
  result of the whole decode, unmodified.
\<close>

definition and_then :: "'e + 'a \<Rightarrow> ('a \<Rightarrow> 'e + 'b) \<Rightarrow> 'e + 'b" where
  "and_then m f = (case m of Inl e \<Rightarrow> Inl e | Inr x \<Rightarrow> f x)"

text \<open>Modelled from the spec: decoding every element of a list, in order.\<close>

fun traverse :: "('a \<Rightarrow> 'e + 'b) \<Rightarrow> 'a list \<Rightarrow> 'e + 'b list" where
  "traverse f [] = Inr []"
| "traverse f (x # xs) =
     and_then (f x) (\<lambda>y. and_then (traverse f xs) (\<lambda>ys. Inr (y # ys)))"

text \<open>
  Modelled from the spec: a field declared \<^verbatim>\<open>int\<close> or \<^verbatim>\<open>bool\<close> decodes from a
  scalar of that type; any other source value is a decoding error. A \<^verbatim>\<open>string\<close> target
  is where the model leaves the specification's words and follows the library: the
  callback of \<^verbatim>\<open>UnmarshalYAML\<close> has the signature of the YAML library's unmarshalers,
  and that library writes the text of any scalar into a \<^verbatim>\<open>string\<close> target, so a number
  or a boolean decodes as its text and only a list or a mapping is a decoding error. A
  node of the model holds the value of a scalar; the text of an integer is taken to be
  its decimal rendering and the text of a boolean \<^verbatim>\<open>true\<close> or \<^verbatim>\<open>false\<close>.
\<close>

fun decode_string :: "node \<Rightarrow> error + string" where
  "decode_string (Scalar_string s) = Inr s"
| "decode_string (Scalar_int i) = Inr (Itoa i)"
| "decode_string (Scalar_bool b) = Inr (if b then ''true'' else ''false'')"
| "decode_string _ = Inl (DecodeError ''string'')"

fun decode_int :: "node \<Rightarrow> error + int" where
  "decode_int (Scalar_int i) = Inr i"
| "decode_int _ = Inl (DecodeError ''integer'')"

fun decode_bool :: "node \<Rightarrow> error + bool" where
  "decode_bool (Scalar_bool b) = Inr b"
| "decode_bool _ = Inl (DecodeError ''boolean'')"

text \<open>
  Modelled from the spec: a field declared as a slice decodes from a list, element by
  element; a failure of an element is the failure of the field.
\<close>

fun slice :: "(node \<Rightarrow> error + 'a) \<Rightarrow> node \<Rightarrow> error + 'a list" where
  "slice dec (Sequence ns) = traverse dec ns"
| "slice dec _ = Inl (DecodeError ''list'')"

text \<open>
  Modelled from the spec: the decode source that the library hands to
  \<open>UnmarshalYAML\<close>. It decodes the node of the field into the target it is called with,
  and leaves the target as it was when the node does not have the target's shape.
\<close>

definition unmarshal_of :: "node \<Rightarrow> error unmarshal" where
  "unmarshal_of n =
     \<lparr>into_strings = (\<lambda>target.
        case slice decode_string n of Inl e \<Rightarrow> (Some e, target) | Inr xs \<Rightarrow> (None, xs)),
      into_string = (\<lambda>target.
        case decode_string n of Inl e \<Rightarrow> (Some e, target) | Inr s \<Rightarrow> (None, s))\<rparr>"

text \<open>
  Modelled from the spec: a field declared \<^verbatim>\<open>MultiString\<close> decodes by the type's own
  \<open>UnmarshalYAML\<close> (the function of the source, above), called on the field at its zero
  value; the error it returns is the failure of the field.
\<close>

definition decode_MultiString :: "node \<Rightarrow> error + MultiString" where
  "decode_MultiString n =
     (case UnmarshalYAML [] (unmarshal_of n) of
        (Some e, ms) \<Rightarrow> Inl e
      | (None, ms) \<Rightarrow> Inr ms)"

text \<open>
  Modelled from the spec: a field of a struct. A key that is absent from the mapping
  leaves the field at its zero value and decodes nothing; a key that is present decodes
  its node by the field's type. Of two entries with one key the first is read, and keys
  that no field declares are passed over.
\<close>

definition field :: "(string \<times> node) list \<Rightarrow> string \<Rightarrow> 'a \<Rightarrow> (node \<Rightarrow> error + 'a) \<Rightarrow> error + 'a" where
  "field kvs k zero dec = (case map_of kvs k of None \<Rightarrow> Inr zero | Some n \<Rightarrow> dec n)"

text \<open>
  Modelled from the spec: an optional nested section (a pointer to a struct in the
  source). It is absent (\<^verbatim>\<open>nil\<close>) until its key is decoded, and present afterwards.
\<close>

definition pointer :: "(node \<Rightarrow> error + 'a) \<Rightarrow> node \<Rightarrow> error + 'a option" where
  "pointer dec n = and_then (dec n) (\<lambda>x. Inr (Some x))"

text \<open>
  Modelled from the spec: a nested section decodes from a mapping; any other source value
  is a decoding error.
\<close>

definition struct :: "node \<Rightarrow> ((string \<times> node) list \<Rightarrow> error + 'a) \<Rightarrow> error + 'a" where
  "struct n body = (case n of Mapping kvs \<Rightarrow> body kvs | _ \<Rightarrow> Inl (DecodeError ''mapping''))"

text \<open>
  Modelled from the spec: one decoder for each struct of \<^verbatim>\<open>data.go\<close>. The fields, their
  order, their types and their keys are those of the struct's declaration in the source;
  a decoder starts from the struct's zero value.
\<close>

definition decode_User :: "node \<Rightarrow> error + User" where
  "decode_User n = struct n (\<lambda>kvs.
     and_then (field kvs ''name'' [] decode_string) (\<lambda>v1.
     and_then (field kvs ''gecos'' [] decode_string) (\<lambda>v2.
     and_then (field kvs ''homedir'' [] decode_string) (\<lambda>v3.
     and_then (field kvs ''shell'' [] decode_string) (\<lambda>v4.
     and_then (field kvs ''no_create_homedir'' False decode_bool) (\<lambda>v5.
     and_then (field kvs ''primary_group'' [] decode_string) (\<lambda>v6.
     and_then (field kvs ''groups'' [] decode_MultiString) (\<lambda>v7.
     and_then (field kvs ''system'' False decode_bool) (\<lambda>v8.
     and_then (field kvs ''ssh_authorized_keys'' [] (slice decode_string)) (\<lambda>v9.
     and_then (field kvs ''passwd'' [] decode_string) (\<lambda>v10.
     Inr \<lparr>Name = v1, Description = v2, HomeDir = v3, Shell = v4, NoCreateHomeDir = v5,
          PrimaryGroup = v6, User.Groups = v7, System = v8, SSHAuthorizedKeys = v9,
          User.Password = v10\<rparr>)))))))))))"

text \<open>Modelled from the spec: the decoder of the struct \<^verbatim>\<open>SSHD\<close>, as above.\<close>

definition decode_SSHD :: "node \<Rightarrow> error + SSHD" where
  "decode_SSHD n = struct n (\<lambda>kvs.
     and_then (field kvs ''port'' 0 decode_int) (\<lambda>v1.
     and_then (field kvs ''listen_address'' [] decode_string) (\<lambda>v2.
     and_then (field kvs ''authorized_keys'' [] (slice decode_string)) (\<lambda>v3.
     and_then (field kvs ''permit_root_login'' False decode_bool) (\<lambda>v4.
     and_then (field kvs ''permit_empty_passwords'' False decode_bool) (\<lambda>v5.
     and_then (field kvs ''password_authentication'' False decode_bool) (\<lambda>v6.
     Inr \<lparr>Port = v1, ListenAddress = v2, AuthorizedKeys = v3, PermitRootLogin = v4,
          PermitEmptyPasswords = v5, PasswordAuthentication = v6\<rparr>)))))))"

text \<open>Modelled from the spec: the decoder of the struct \<^verbatim>\<open>DRProvision\<close>, as above.\<close>

definition decode_DRProvision :: "node \<Rightarrow> error + DRProvision" where
  "decode_DRProvision n = struct n (\<lambda>kvs.
     and_then (field kvs ''install_runner'' False decode_bool) (\<lambda>v1.
     and_then (field kvs ''assets_url'' [] decode_string) (\<lambda>v2.
     and_then (field kvs ''token'' [] decode_string) (\<lambda>v3.
     and_then (field kvs ''endpoint'' [] decode_string) (\<lambda>v4.
     and_then (field kvs ''uuid'' [] decode_string) (\<lambda>v5.
     Inr \<lparr>InstallRunner = v1, AssetsURL = v2, Token = v3, Endpoint = v4, UUID = v5\<rparr>))))))"

text \<open>Modelled from the spec: the decoder of the struct \<^verbatim>\<open>ResolvConfiguration\<close>, as above.\<close>

definition decode_ResolvConfiguration :: "node \<Rightarrow> error + ResolvConfiguration" where
  "decode_ResolvConfiguration n = struct n (\<lambda>kvs.
     and_then (field kvs ''nameservers'' [] decode_MultiString) (\<lambda>v1.
     and_then (field kvs ''search_domains'' [] decode_MultiString) (\<lambda>v2.
     and_then (field kvs ''domain'' [] decode_string) (\<lambda>v3.
     Inr \<lparr>NameServers = v1, SearchDomains = v2, Domain = v3\<rparr>))))"

text \<open>Modelled from the spec: the decoder of the struct \<^verbatim>\<open>NTPConfiguration\<close>, as above.\<close>

definition decode_NTPConfiguration :: "node \<Rightarrow> error + NTPConfiguration" where
  "decode_NTPConfiguration n = struct n (\<lambda>kvs.
     and_then (field kvs ''pools'' [] decode_MultiString) (\<lambda>v1.
     and_then (field kvs ''servers'' [] decode_MultiString) (\<lambda>v2.
     Inr \<lparr>Pools = v1, Servers = v2\<rparr>)))"

text \<open>Modelled from the spec: the decoder of the struct \<^verbatim>\<open>NetworkSettings\<close>, as above.\<close>

definition decode_NetworkSettings :: "node \<Rightarrow> error + NetworkSettings" where
  "decode_NetworkSettings n = struct n (\<lambda>kvs.
     and_then (field kvs ''hostname'' [] decode_string) (\<lambda>v1.
     and_then (field kvs ''interfaces'' [] decode_string) (\<lambda>v2.
     and_then (field kvs ''resolv_conf'' None (pointer decode_ResolvConfiguration)) (\<lambda>v3.
     and_then (field kvs ''proxy'' [] decode_string) (\<lambda>v4.
     and_then (field kvs ''ntp'' None (pointer decode_NTPConfiguration)) (\<lambda>v5.
     Inr \<lparr>HostName = v1, InterfaceOpts = v2, ResolvConf = v3, Proxy = v4, NTP = v5\<rparr>))))))"

text \<open>Modelled from the spec: the decoder of the struct \<^verbatim>\<open>MTAConfiguration\<close>, as above.\<close>

definition decode_MTAConfiguration :: "node \<Rightarrow> error + MTAConfiguration" where
  "decode_MTAConfiguration n = struct n (\<lambda>kvs.
     and_then (field kvs ''root'' [] decode_string) (\<lambda>v1.
     and_then (field kvs ''server'' [] decode_string) (\<lambda>v2.
     and_then (field kvs ''use_tls'' False decode_bool) (\<lambda>v3.
     and_then (field kvs ''use_starttls'' False decode_bool) (\<lambda>v4.
     and_then (field kvs ''user'' [] decode_string) (\<lambda>v5.
     and_then (field kvs ''password'' [] decode_string) (\<lambda>v6.
     and_then (field kvs ''authmethod'' [] decode_string) (\<lambda>v7.
     and_then (field kvs ''rewrite_domain'' [] decode_string) (\<lambda>v8.
     and_then (field kvs ''fromline_override'' False decode_bool) (\<lambda>v9.
     Inr \<lparr>Root = v1, Server = v2, UseTLS = v3, UseSTARTTLS = v4, User = v5,
          MTAConfiguration.Password = v6, AuthMethod = v7, RewriteDomain = v8,
          FromLineOverride = v9\<rparr>))))))))))"

text \<open>Modelled from the spec: the decoder of the struct \<^verbatim>\<open>PackagesConfig\<close>, as above.\<close>

definition decode_PackagesConfig :: "node \<Rightarrow> error + PackagesConfig" where
  "decode_PackagesConfig n = struct n (\<lambda>kvs.
     and_then (field kvs ''repositories'' [] decode_MultiString) (\<lambda>v1.
     and_then (field kvs ''update'' False decode_bool) (\<lambda>v2.
     and_then (field kvs ''upgrade'' False decode_bool) (\<lambda>v3.
     and_then (field kvs ''install'' [] decode_MultiString) (\<lambda>v4.
     and_then (field kvs ''uninstall'' [] decode_MultiString) (\<lambda>v5.
     Inr \<lparr>Repositories = v1, Update = v2, Upgrade = v3, Install = v4, Uninstall = v5\<rparr>))))))"

text \<open>Modelled from the spec: the decoder of the struct \<^verbatim>\<open>WriteFile\<close>, as above.\<close>

definition decode_WriteFile :: "node \<Rightarrow> error + WriteFile" where
  "decode_WriteFile n = struct n (\<lambda>kvs.
     and_then (field kvs ''encoding'' [] decode_string) (\<lambda>v1.
     and_then (field kvs ''content'' [] decode_string) (\<lambda>v2.
     and_then (field kvs ''content-url'' [] decode_string) (\<lambda>v3.
     and_then (field kvs ''path'' [] decode_string) (\<lambda>v4.
     and_then (field kvs ''owner'' [] decode_string) (\<lambda>v5.
     and_then (field kvs ''permissions'' [] decode_string) (\<lambda>v6.
     Inr \<lparr>Encoding = v1, Content = v2, ContentURL = v3, Path = v4, Owner = v5,
          Permissions = v6\<rparr>)))))))"

text \<open>Modelled from the spec: the decoder of the struct \<^verbatim>\<open>Disk\<close>, as above.\<close>

definition decode_Disk :: "node \<Rightarrow> error + Disk" where
  "decode_Disk n = struct n (\<lambda>kvs.
     and_then (field kvs ''device'' [] decode_string) (\<lambda>v1.
     and_then (field kvs ''filesystem'' [] decode_string) (\<lambda>v2.
     and_then (field kvs ''mountpoint'' [] decode_string) (\<lambda>v3.
     Inr \<lparr>Device = v1, FileSystemType = v2, MountPoint = v3\<rparr>))))"

text \<open>
  Modelled from the spec: the decoder of the struct \<^verbatim>\<open>AlpineData\<close>, as above; it is the
  decode of a whole document.
\<close>

definition decode_AlpineData :: "node \<Rightarrow> error + AlpineData" where
  "decode_AlpineData n = struct n (\<lambda>kvs.
     and_then (field kvs ''password'' [] decode_string) (\<lambda>v1.
     and_then (field kvs ''motd'' [] decode_string) (\<lambda>v2.
     and_then (field kvs ''network'' None (pointer decode_NetworkSettings)) (\<lambda>v3.
     and_then (field kvs ''packages'' None (pointer decode_PackagesConfig)) (\<lambda>v4.
     and_then (field kvs ''dr_provision'' None (pointer decode_DRProvision)) (\<lambda>v5.
     and_then (field kvs ''sshd'' None (pointer decode_SSHD)) (\<lambda>v6.
     and_then (field kvs ''groups'' [] decode_MultiString) (\<lambda>v7.
     and_then (field kvs ''users'' [] (slice decode_User)) (\<lambda>v8.
     and_then (field kvs ''runcmd'' [] (slice decode_MultiString)) (\<lambda>v9.
     and_then (field kvs ''write_files'' [] (slice decode_WriteFile)) (\<lambda>v10.
     and_then (field kvs ''timezone'' [] decode_string) (\<lambda>v11.
     and_then (field kvs ''keymap'' [] decode_string) (\<lambda>v12.
     and_then (field kvs ''unlift'' False decode_bool) (\<lambda>v13.
     and_then (field kvs ''scratch_disk'' [] decode_string) (\<lambda>v14.
     and_then (field kvs ''disks'' [] (slice decode_Disk)) (\<lambda>v15.
     and_then (field kvs ''mta'' None (pointer decode_MTAConfiguration)) (\<lambda>v16.
     Inr \<lparr>RootPasswd = v1, MOTD = v2, Network = v3, Packages = v4, DRP = v5,
          SSHDConfig = v6, AlpineData.Groups = v7, Users = v8, RunCMD = v9,
          WriteFiles = v10, TimeZone = v11, Keymap = v12, UnLift = v13,
          ScratchDisk = v14, Disks = v15, MTA = v16\<rparr>)))))))))))))))))"

subsection \<open>Places in a document\<close>

text \<open>
  Modelled from the spec: a place in a document is reached from its root by keys of
  mappings and positions in lists.
\<close>

datatype step = Key string | Index nat

fun child :: "node \<Rightarrow> step \<Rightarrow> node option" where
  "child (Mapping kvs) (Key k) = map_of kvs k"
| "child (Sequence ns) (Index i) = (if i < length ns then Some (ns ! i) else None)"
| "child _ _ = None"

fun at_path :: "node \<Rightarrow> step list \<Rightarrow> node option" where
  "at_path n [] = Some n"
| "at_path n (s # p) = (case child n s of None \<Rightarrow> None | Some c \<Rightarrow> at_path c p)"

text \<open>
  Modelled from the spec: what a FlexibleList field is promised to hold, by what the
  document has at the field's place: the empty list when the place is absent, the
  one-element list of a single string, the list itself of a list of strings; a source
  value of any other shape has no list. A scalar counts as the string that is its text,
  a number or a boolean included, as it does for a \<^verbatim>\<open>string\<close> target above; the
  shapes without a list are a mapping and a list that holds a mapping or a list.
\<close>

fun text_of :: "node \<Rightarrow> string option" where
  "text_of (Scalar_string s) = Some s"
| "text_of (Scalar_int i) = Some (Itoa i)"
| "text_of (Scalar_bool b) = Some (if b then ''true'' else ''false'')"
| "text_of (Sequence ns) = None"
| "text_of (Mapping kvs) = None"

fun strings_of :: "node list \<Rightarrow> string list option" where
  "strings_of [] = Some []"
| "strings_of (n # ns) =
     (case text_of n of
        None \<Rightarrow> None
      | Some s \<Rightarrow> map_option ((#) s) (strings_of ns))"

fun flexible :: "node option \<Rightarrow> string list option" where
  "flexible None = Some []"
| "flexible (Some (Sequence ns)) = strings_of ns"
| "flexible (Some n) = map_option (\<lambda>s. [s]) (text_of n)"

text \<open>
  Modelled from the spec: the FlexibleList fields of the data model that sit in a list,
  by their place in a document: the elements of \<^verbatim>\<open>RunCMD\<close> (key \<^verbatim>\<open>runcmd\<close>) and the
  field \<^verbatim>\<open>Groups\<close> of the elements of \<^verbatim>\<open>Users\<close> (keys \<^verbatim>\<open>users\<close> and \<^verbatim>\<open>groups\<close>).
  Each function gives the position in the list when the place is one of these.
\<close>

fun runcmd_index :: "step list \<Rightarrow> nat option" where
  "runcmd_index [Key k, Index i] = (if k = ''runcmd'' then Some i else None)"
| "runcmd_index _ = None"

fun user_groups_index :: "step list \<Rightarrow> nat option" where
  "user_groups_index [Key k, Index i, Key g] =
     (if k = ''users'' \<and> g = ''groups'' then Some i else None)"
| "user_groups_index _ = None"

text \<open>
  Modelled from the spec: the FlexibleList fields of the data model, each with its place
  in a document (the keys are the \<^verbatim>\<open>yaml\<close> tags of the source) and the list it holds in
  a decoded \<open>AlpineData\<close>; \<open>None\<close> when the place is not a FlexibleList field, or when
  the section or list element it sits in does not exist in the \<open>AlpineData\<close>. These are
  all the fields of type \<^verbatim>\<open>MultiString\<close> in \<^verbatim>\<open>data.go\<close>, and the elements of
  \<^verbatim>\<open>RunCMD\<close>.
\<close>

definition flexible_field :: "AlpineData \<Rightarrow> step list \<Rightarrow> MultiString option" where
  "flexible_field d p =
     (if p = [Key ''groups''] then Some (AlpineData.Groups d)
      else if p = [Key ''packages'', Key ''repositories'']
        then map_option Repositories (Packages d)
      else if p = [Key ''packages'', Key ''install'']
        then map_option Install (Packages d)
      else if p = [Key ''packages'', Key ''uninstall'']
        then map_option Uninstall (Packages d)
      else if p = [Key ''network'', Key ''resolv_conf'', Key ''nameservers'']
        then Option.bind (Network d) (\<lambda>nw. map_option NameServers (ResolvConf nw))
      else if p = [Key ''network'', Key ''resolv_conf'', Key ''search_domains'']
        then Option.bind (Network d) (\<lambda>nw. map_option SearchDomains (ResolvConf nw))
      else if p = [Key ''network'', Key ''ntp'', Key ''pools'']
        then Option.bind (Network d) (\<lambda>nw. map_option Pools (NTP nw))
      else if p = [Key ''network'', Key ''ntp'', Key ''servers'']
        then Option.bind (Network d) (\<lambda>nw. map_option Servers (NTP nw))
      else (case runcmd_index p of
              Some i \<Rightarrow> (if i < length (RunCMD d) then Some (RunCMD d ! i) else None)
            | None \<Rightarrow>
                (case user_groups_index p of
                   Some i \<Rightarrow>
                     (if i < length (Users d) then Some (User.Groups (Users d ! i))
                      else None)
                 | None \<Rightarrow> None)))"

text \<open>Modelled from the spec: the places of the FlexibleList fields alone.\<close>

definition flexible_path :: "step list \<Rightarrow> bool" where
  "flexible_path p =
     (p = [Key ''groups'']
      \<or> p = [Key ''packages'', Key ''repositories'']
      \<or> p = [Key ''packages'', Key ''install'']
      \<or> p = [Key ''packages'', Key ''uninstall'']
      \<or> p = [Key ''network'', Key ''resolv_conf'', Key ''nameservers'']
      \<or> p = [Key ''network'', Key ''resolv_conf'', Key ''search_domains'']
      \<or> p = [Key ''network'', Key ''ntp'', Key ''pools'']
      \<or> p = [Key ''network'', Key ''ntp'', Key ''servers'']
      \<or> runcmd_index p \<noteq> None
      \<or> user_groups_index p \<noteq> None)"

section \<open>Example inputs\<close>

text \<open>
  Three decode sources for \<open>UnmarshalYAML\<close>: one that decodes as a list of strings, one
  that decodes as a single string, and one that decodes as neither and has written part
  of its target by the time it fails.
\<close>

definition source_list :: "string list \<Rightarrow> string unmarshal" where
  "source_list xs =
     \<lparr>into_strings = (\<lambda>target. (None, xs)),
      into_string = (\<lambda>target. (Some ''cannot unmarshal a list into string'', target))\<rparr>"

definition source_string :: "string \<Rightarrow> string unmarshal" where
  "source_string s =
     \<lparr>into_strings = (\<lambda>target. (Some ''cannot unmarshal a string into []string'', target)),
      into_string = (\<lambda>target. (None, s))\<rparr>"

definition source_other :: "string unmarshal" where
  "source_other =
     \<lparr>into_strings = (\<lambda>target. (Some ''cannot unmarshal into []string'', [''partial''])),
      into_string = (\<lambda>target. (Some ''cannot unmarshal into string'', ''partial''))\<rparr>"

text \<open>
  Three receivers for \<open>getSSHDKVMap\<close>: the default configuration, a configuration with
  the same five SSH settings that differs in the authorized keys and elsewhere, and a
  configuration with other SSH settings.
\<close>

definition lift_default :: Lift where
  "lift_default = \<lparr>Data = Some InitAlpineData\<rparr>"

definition lift_other :: Lift where
  "lift_other = \<lparr>Data = Some (zero_AlpineData
     \<lparr>RootPasswd := ''secret'',
      SSHDConfig := Some \<lparr>Port = 22, ListenAddress = ''0.0.0.0'',
        AuthorizedKeys = [''ssh-ed25519 AAAA root@host''],
        PermitRootLogin = True, PermitEmptyPasswords = False,
        PasswordAuthentication = False\<rparr>,
      AlpineData.Groups := [''wheel'']\<rparr>)\<rparr>"

definition lift_custom :: Lift where
  "lift_custom = \<lparr>Data = Some (zero_AlpineData
     \<lparr>SSHDConfig := Some \<lparr>Port = 2222, ListenAddress = ''10.0.0.1'',
        AuthorizedKeys = [], PermitRootLogin = False, PermitEmptyPasswords = True,
        PasswordAuthentication = True\<rparr>\<rparr>)\<rparr>"

text \<open>
  Documents for the decoder: one with an SSH daemon section that has a port and nothing
  else, one whose \<^verbatim>\<open>groups\<close> is a number, one whose \<^verbatim>\<open>groups\<close> is a mapping, one
  whose packages to install are a list that holds a list, one with a user whose
  \<^verbatim>\<open>groups\<close> is a mapping, and one with FlexibleList fields written as a single
  string, as lists and not at all, with the \<open>AlpineData\<close> it decodes to.
\<close>

definition doc_sshd_port :: node where
  "doc_sshd_port = Mapping [(''sshd'', Mapping [(''port'', Scalar_int 2222)])]"

definition doc_groups_number :: node where
  "doc_groups_number = Mapping [(''timezone'', Scalar_string ''UTC''), (''groups'', Scalar_int 42)]"

definition doc_groups_mapping :: node where
  "doc_groups_mapping = Mapping
     [(''timezone'', Scalar_string ''UTC''),
      (''groups'', Mapping [(''admin'', Scalar_string ''wheel'')])]"

definition doc_install_nested :: node where
  "doc_install_nested = Mapping
     [(''packages'', Mapping
         [(''install'', Sequence [Scalar_string ''curl'', Sequence [Scalar_string ''vim'']])])]"

definition doc_user_groups_mapping :: node where
  "doc_user_groups_mapping = Mapping
     [(''users'', Sequence
        [Mapping [(''name'', Scalar_string ''alice''),
                  (''groups'', Mapping [(''primary'', Scalar_string ''wheel'')])]])]"

definition doc_flexible :: node where
  "doc_flexible = Mapping
     [(''groups'', Scalar_string ''wheel''),
      (''packages'', Mapping
         [(''install'', Sequence [Scalar_string ''curl'', Scalar_string ''vim'',
             Scalar_string ''curl'']),
          (''uninstall'', Sequence [])]),
      (''runcmd'', Sequence
         [Scalar_string ''reboot'',
          Sequence [Scalar_string ''echo'', Scalar_string ''done'']])]"

definition data_flexible :: AlpineData where
  "data_flexible = zero_AlpineData
     \<lparr>Packages := Some (zero_PackagesConfig\<lparr>Install := [''curl'', ''vim'', ''curl'']\<rparr>),
      AlpineData.Groups := [''wheel''],
      RunCMD := [[''reboot''], [''echo'', ''done'']]\<rparr>"

section \<open>Properties of \<^verbatim>\<open>strconv.Itoa\<close>\<close>

lemma digit_cases: "d < 10 \<Longrightarrow> d \<in> {0, 1, 2, 3, 4, 5, 6, 7, 8, 9::nat}"
  by auto

lemma digit_value_digit: "d < 10 \<Longrightarrow> digit_value (digit d) = d"
  using digit_cases [of d] by (auto simp: digit_value_def digit_def)

lemma is_digit_digit: "d < 10 \<Longrightarrow> is_digit (digit d)"
  using digit_cases [of d] by (auto simp: is_digit_def digit_def)

lemma digit_zero: "d < 10 \<Longrightarrow> digit d = CHR ''0'' \<longleftrightarrow> d = 0"
  using digit_cases [of d] by (auto simp: digit_def)

lemma decimal_value_snoc: "decimal_value (s @ [c]) = 10 * decimal_value s + digit_value c"
  by (simp add: decimal_value_def)

lemma FormatUint_nonempty: "FormatUint n \<noteq> []"
  by (subst FormatUint.simps) simp

lemma FormatUint_value: "decimal_value (FormatUint n) = n"
proof (induction n rule: FormatUint.induct)
  case (1 n)
  show ?case
  proof (cases "n < 10")
    case True
    then show ?thesis
      by (subst FormatUint.simps) (simp add: decimal_value_def digit_value_digit)
  next
    case False
    with 1 show ?thesis
      by (subst FormatUint.simps) (simp add: decimal_value_snoc digit_value_digit)
  qed
qed

lemma FormatUint_digits: "list_all is_digit (FormatUint n)"
proof (induction n rule: FormatUint.induct)
  case (1 n)
  show ?case
  proof (cases "n < 10")
    case True
    then show ?thesis
      by (subst FormatUint.simps) (simp add: is_digit_digit)
  next
    case False
    with 1 show ?thesis
      by (subst FormatUint.simps) (simp add: is_digit_digit)
  qed
qed

lemma FormatUint_hd: "0 < n \<Longrightarrow> hd (FormatUint n) \<noteq> CHR ''0''"
proof (induction n rule: FormatUint.induct)
  case (1 n)
  show ?case
  proof (cases "n < 10")
    case True
    with 1 show ?thesis
      by (subst FormatUint.simps) (simp add: digit_zero)
  next
    case False
    then have "0 < n div 10" by simp
    with 1 False have "hd (FormatUint (n div 10)) \<noteq> CHR ''0''" by simp
    with False show ?thesis
      by (subst FormatUint.simps) (simp add: FormatUint_nonempty)
  qed
qed

lemma FormatUint_zero: "FormatUint 0 = ''0''"
  by (simp add: FormatUint.simps digit_def)

lemma FormatUint_ok: "digits_ok (FormatUint n)"
proof (cases "n = 0")
  case True
  then show ?thesis by (simp add: digits_ok_def FormatUint_zero is_digit_def)
next
  case False
  then show ?thesis
    using FormatUint_hd [of n] by (simp add: digits_ok_def FormatUint_nonempty FormatUint_digits)
qed

lemma Itoa_decimal: "is_decimal_of (Itoa i) i"
  by (simp add: is_decimal_of_def Itoa_def FormatUint_ok FormatUint_value)

lemma Itoa_22: "Itoa 22 = ''22''"
  by (simp add: Itoa_def FormatUint.simps digit_def)

lemma Itoa_2222: "Itoa 2222 = ''2222''"
  by (simp add: Itoa_def FormatUint.simps digit_def)

lemma Itoa_42: "Itoa 42 = ''42''"
  by (simp add: Itoa_def FormatUint.simps digit_def)

section \<open>Properties of \<^verbatim>\<open>MultiString.UnmarshalYAML\<close>\<close>

text \<open>
  Claim C1. Whatever the decode source and whatever the receiver holds: when the source
  decodes as a list of strings, \<open>UnmarshalYAML\<close> succeeds and the receiver holds exactly
  that list, in its order, with its duplicates, the empty list included; when it does
  not, and the source decodes as a single string, \<open>UnmarshalYAML\<close> succeeds and the
  receiver holds the one-element list of that string.
\<close>

theorem UnmarshalYAML_list_or_string:
  "(into_strings u [] = (None, xs) \<longrightarrow> UnmarshalYAML ms u = (None, xs)) \<and>
   (into_strings u [] = (Some e, vs) \<longrightarrow> into_string u [] = (None, s) \<longrightarrow>
      UnmarshalYAML ms u = (None, [s]))"
  by (simp add: UnmarshalYAML_def)

theorem UnmarshalYAML_list_or_string_witness:
  "UnmarshalYAML [''old''] (source_list [''wheel'', ''docker'', ''wheel''])
     = (None, [''wheel'', ''docker'', ''wheel'']) \<and>
   UnmarshalYAML [''old''] (source_list []) = (None, []) \<and>
   UnmarshalYAML [''old''] (source_string ''wheel'') = (None, [''wheel''])"
  using UnmarshalYAML_list_or_string [of "source_list [''wheel'', ''docker'', ''wheel'']"
      "[''wheel'', ''docker'', ''wheel'']" "[''old'']"]
    UnmarshalYAML_list_or_string [of "source_list []" "[]" "[''old'']"]
    UnmarshalYAML_list_or_string [of "source_string ''wheel''" _ "[''old'']"
      "''cannot unmarshal a string into []string''" "[]" "''wheel''"]
  by (simp add: source_list_def source_string_def)

text \<open>
  Claim C9. When the attempt on a list of strings and the attempt on a single string
  both fail, \<open>UnmarshalYAML\<close> returns the error of the second attempt and the receiver
  holds what it held before the call; and whenever \<open>UnmarshalYAML\<close> returns an error,
  the receiver holds what it held before the call.
\<close>

theorem UnmarshalYAML_error_leaves_receiver:
  "(into_strings u [] = (Some e1, vs) \<longrightarrow> into_string u [] = (Some e2, s) \<longrightarrow>
      UnmarshalYAML ms u = (Some e2, ms)) \<and>
   (fst (UnmarshalYAML ms u) \<noteq> None \<longrightarrow> snd (UnmarshalYAML ms u) = ms)"
  by (auto simp: UnmarshalYAML_def split: prod.splits option.splits)

theorem UnmarshalYAML_error_leaves_receiver_witness:
  "UnmarshalYAML [''old''] source_other = (Some ''cannot unmarshal into string'', [''old''])
   \<and> fst (UnmarshalYAML [''old''] source_other) \<noteq> None
   \<and> snd (UnmarshalYAML [''old''] source_other) = [''old'']"
  using UnmarshalYAML_error_leaves_receiver [of source_other
      "''cannot unmarshal into []string''" "[''partial'']"
      "''cannot unmarshal into string''" "''partial''" "[''old'']"]
  by (simp add: source_other_def)

section \<open>Properties of \<^verbatim>\<open>InitAlpineData\<close>\<close>

text \<open>
  Claim C4. \<open>InitAlpineData\<close> is this one value: \<^verbatim>\<open>UnLift\<close> true, time zone
  \<^verbatim>\<open>UTC\<close>, keymap \<^verbatim>\<open>us us\<close>, a network section with the host name \<^verbatim>\<open>alpine\<close>, an
  SSH daemon section with port 22, listen address \<^verbatim>\<open>0.0.0.0\<close>, root login permitted,
  empty passwords forbidden and password authentication disabled, a provisioning section
  with the install flag set, a packages section with the two default repositories, and
  every other field at the zero value of its type. It is a constant: it takes no input
  and has no error result.
\<close>

theorem InitAlpineData_values:
  "InitAlpineData =
     \<lparr>RootPasswd = [], MOTD = [],
      Network = Some \<lparr>HostName = ''alpine'', InterfaceOpts = [], ResolvConf = None,
        Proxy = [], NTP = None\<rparr>,
      Packages = Some \<lparr>Repositories =
          [''http://dl-cdn.alpinelinux.org/alpine/v3.8/main'',
           ''http://dl-cdn.alpinelinux.org/alpine/v3.8/community''],
        Update = False, Upgrade = False, Install = [], Uninstall = []\<rparr>,
      DRP = Some \<lparr>InstallRunner = True, AssetsURL = [], Token = [], Endpoint = [],
        UUID = []\<rparr>,
      SSHDConfig = Some \<lparr>Port = 22, ListenAddress = ''0.0.0.0'', AuthorizedKeys = [],
        PermitRootLogin = True, PermitEmptyPasswords = False,
        PasswordAuthentication = False\<rparr>,
      AlpineData.Groups = [], Users = [], RunCMD = [], WriteFiles = [],
      TimeZone = ''UTC'', Keymap = ''us us'', UnLift = True, ScratchDisk = [],
      Disks = [], MTA = None\<rparr>"
  by (simp add: InitAlpineData_def zero_AlpineData_def zero_NetworkSettings_def
      zero_SSHD_def zero_DRProvision_def zero_PackagesConfig_def)

section \<open>Properties of \<^verbatim>\<open>getSSHDKVMap\<close>\<close>

text \<open>
  Claim C5. For a receiver with an SSH daemon section, \<open>getSSHDKVMap\<close> returns a map
  whose keys are exactly \<^verbatim>\<open>Port\<close>, \<^verbatim>\<open>ListenAddress\<close>, \<^verbatim>\<open>PermitRootLogin\<close>,
  \<^verbatim>\<open>PermitEmptyPasswords\<close> and \<^verbatim>\<open>PasswordAuthentication\<close>; the port is rendered as
  its decimal string, the listen address is copied, and each of the three boolean fields
  is rendered as \<^verbatim>\<open>yes\<close> when true and \<^verbatim>\<open>no\<close> when false.
\<close>

theorem getSSHDKVMap_projection:
  assumes "Data lift = Some data" and "SSHDConfig data = Some sshd"
  shows "\<exists>m. getSSHDKVMap (Some lift) = Inr m
     \<and> dom m = {''Port'', ''ListenAddress'', ''PermitRootLogin'', ''PermitEmptyPasswords'',
         ''PasswordAuthentication''}
     \<and> m ''Port'' = Some (Itoa (Port sshd))
     \<and> is_decimal_of (Itoa (Port sshd)) (Port sshd)
     \<and> m ''ListenAddress'' = Some (ListenAddress sshd)
     \<and> m ''PermitRootLogin'' = Some (if PermitRootLogin sshd then ''yes'' else ''no'')
     \<and> m ''PermitEmptyPasswords'' =
         Some (if PermitEmptyPasswords sshd then ''yes'' else ''no'')
     \<and> m ''PasswordAuthentication'' =
         Some (if PasswordAuthentication sshd then ''yes'' else ''no'')"
  using assms by (auto simp: getSSHDKVMap_def boolToYesNo_def Itoa_decimal)

theorem getSSHDKVMap_projection_witness:
  "\<exists>m. getSSHDKVMap (Some lift_custom) = Inr m
     \<and> dom m = {''Port'', ''ListenAddress'', ''PermitRootLogin'', ''PermitEmptyPasswords'',
         ''PasswordAuthentication''}
     \<and> m ''Port'' = Some ''2222''
     \<and> m ''ListenAddress'' = Some ''10.0.0.1''
     \<and> m ''PermitRootLogin'' = Some ''no''
     \<and> m ''PermitEmptyPasswords'' = Some ''yes''
     \<and> m ''PasswordAuthentication'' = Some ''yes''"
proof -
  let ?s = "\<lparr>Port = 2222, ListenAddress = ''10.0.0.1'', AuthorizedKeys = [],
      PermitRootLogin = False, PermitEmptyPasswords = True,
      PasswordAuthentication = True\<rparr>"
  let ?d = "zero_AlpineData\<lparr>SSHDConfig := Some ?s\<rparr>"
  have h1: "Data lift_custom = Some ?d"
    by (simp add: lift_custom_def)
  have h2: "SSHDConfig ?d = Some ?s"
    by simp
  from getSSHDKVMap_projection [OF h1 h2] obtain m where
    "getSSHDKVMap (Some lift_custom) = Inr m"
    "dom m = {''Port'', ''ListenAddress'', ''PermitRootLogin'', ''PermitEmptyPasswords'',
         ''PasswordAuthentication''}"
    "m ''Port'' = Some (Itoa (Port ?s))"
    "m ''ListenAddress'' = Some (ListenAddress ?s)"
    "m ''PermitRootLogin'' = Some (if PermitRootLogin ?s then ''yes'' else ''no'')"
    "m ''PermitEmptyPasswords'' = Some (if PermitEmptyPasswords ?s then ''yes'' else ''no'')"
    "m ''PasswordAuthentication'' =
       Some (if PasswordAuthentication ?s then ''yes'' else ''no'')"
    by blast
  then show ?thesis
    by (simp add: Itoa_2222)
qed

text \<open>
  Claim C6. For a receiver whose data is the default configuration, \<open>getSSHDKVMap\<close>
  returns exactly the map with \<^verbatim>\<open>Port\<close> 22, \<^verbatim>\<open>ListenAddress\<close> 0.0.0.0,
  \<^verbatim>\<open>PermitRootLogin\<close> yes, \<^verbatim>\<open>PermitEmptyPasswords\<close> no and
  \<^verbatim>\<open>PasswordAuthentication\<close> no.
\<close>

theorem getSSHDKVMap_default:
  assumes "Data lift = Some InitAlpineData"
  shows "getSSHDKVMap (Some lift) =
     Inr [''Port'' \<mapsto> ''22'', ''ListenAddress'' \<mapsto> ''0.0.0.0'', ''PermitRootLogin'' \<mapsto> ''yes'',
          ''PermitEmptyPasswords'' \<mapsto> ''no'', ''PasswordAuthentication'' \<mapsto> ''no'']"
  using assms
  by (simp add: getSSHDKVMap_def InitAlpineData_def zero_SSHD_def boolToYesNo_def Itoa_22)

theorem getSSHDKVMap_default_witness:
  "Data lift_default = Some InitAlpineData \<and>
   getSSHDKVMap (Some lift_default) =
     Inr [''Port'' \<mapsto> ''22'', ''ListenAddress'' \<mapsto> ''0.0.0.0'', ''PermitRootLogin'' \<mapsto> ''yes'',
          ''PermitEmptyPasswords'' \<mapsto> ''no'', ''PasswordAuthentication'' \<mapsto> ''no'']"
proof -
  have h: "Data lift_default = Some InitAlpineData"
    by (simp add: lift_default_def)
  show ?thesis
    using h getSSHDKVMap_default [OF h] by simp
qed

text \<open>Through a \<^verbatim>\<open>nil\<close> pointer the function panics.\<close>

lemma getSSHDKVMap_nil:
  "getSSHDKVMap None = Inl NilPointerDereference"
  "Data lift = None \<Longrightarrow> getSSHDKVMap (Some lift) = Inl NilPointerDereference"
  "Data lift = Some data \<Longrightarrow> SSHDConfig data = None \<Longrightarrow>
     getSSHDKVMap (Some lift) = Inl NilPointerDereference"
  by (simp_all add: getSSHDKVMap_def)

text \<open>
  Claim C8. For a receiver with an SSH daemon section (\<^verbatim>\<open>l\<close>, \<^verbatim>\<open>l.Data\<close> and
  \<^verbatim>\<open>l.Data.SSHDConfig\<close> are not \<^verbatim>\<open>nil\<close>), \<open>getSSHDKVMap\<close> returns a map and does
  not panic. It is a function of its receiver alone.
\<close>

theorem getSSHDKVMap_total:
  assumes "Data lift = Some data" and "SSHDConfig data = Some sshd"
  shows "\<exists>m. getSSHDKVMap (Some lift) = Inr m"
  using assms by (simp add: getSSHDKVMap_def)

theorem getSSHDKVMap_total_witness:
  "Data lift_default = Some InitAlpineData
   \<and> SSHDConfig InitAlpineData \<noteq> None
   \<and> (\<exists>m. getSSHDKVMap (Some lift_default) = Inr m)"
proof -
  have h1: "Data lift_default = Some InitAlpineData"
    by (simp add: lift_default_def)
  have h2: "SSHDConfig InitAlpineData = Some (zero_SSHD
        \<lparr>Port := 22,
         ListenAddress := ''0.0.0.0'',
         PermitRootLogin := True,
         PermitEmptyPasswords := False,
         PasswordAuthentication := False\<rparr>)"
    by (simp add: InitAlpineData_def)
  show ?thesis
    using h1 h2 getSSHDKVMap_total [OF h1 h2] by simp
qed

text \<open>
  Claim C10. Two receivers whose SSH daemon sections agree on \<^verbatim>\<open>Port\<close>,
  \<^verbatim>\<open>ListenAddress\<close>, \<^verbatim>\<open>PermitRootLogin\<close>, \<^verbatim>\<open>PermitEmptyPasswords\<close> and
  \<^verbatim>\<open>PasswordAuthentication\<close> get equal maps from \<open>getSSHDKVMap\<close>, whatever their
  authorized keys and every other field of the two configurations are.
\<close>

theorem getSSHDKVMap_depends_on_five_fields:
  assumes "Data l1 = Some d1" and "SSHDConfig d1 = Some s1"
    and "Data l2 = Some d2" and "SSHDConfig d2 = Some s2"
    and "Port s1 = Port s2"
    and "ListenAddress s1 = ListenAddress s2"
    and "PermitRootLogin s1 = PermitRootLogin s2"
    and "PermitEmptyPasswords s1 = PermitEmptyPasswords s2"
    and "PasswordAuthentication s1 = PasswordAuthentication s2"
  shows "getSSHDKVMap (Some l1) = getSSHDKVMap (Some l2)"
  using assms by (simp add: getSSHDKVMap_def)

theorem getSSHDKVMap_depends_on_five_fields_witness:
  "Data lift_default \<noteq> Data lift_other
   \<and> getSSHDKVMap (Some lift_default) = getSSHDKVMap (Some lift_other)"
proof -
  let ?s1 = "zero_SSHD
        \<lparr>Port := 22,
         ListenAddress := ''0.0.0.0'',
         PermitRootLogin := True,
         PermitEmptyPasswords := False,
         PasswordAuthentication := False\<rparr>"
  let ?s2 = "\<lparr>Port = 22, ListenAddress = ''0.0.0.0'',
        AuthorizedKeys = [''ssh-ed25519 AAAA root@host''],
        PermitRootLogin = True, PermitEmptyPasswords = False,
        PasswordAuthentication = False\<rparr>"
  let ?d2 = "zero_AlpineData
     \<lparr>RootPasswd := ''secret'', SSHDConfig := Some ?s2, AlpineData.Groups := [''wheel'']\<rparr>"
  have a1: "Data lift_default = Some InitAlpineData"
    by (simp add: lift_default_def)
  have a2: "SSHDConfig InitAlpineData = Some ?s1"
    by (simp add: InitAlpineData_def)
  have a3: "Data lift_other = Some ?d2"
    by (simp add: lift_other_def)
  have a4: "SSHDConfig ?d2 = Some ?s2"
    by simp
  have diff: "Data lift_default \<noteq> Data lift_other"
    by (simp add: lift_default_def lift_other_def InitAlpineData_def zero_AlpineData_def)
  have "getSSHDKVMap (Some lift_default) = getSSHDKVMap (Some lift_other)"
    by (rule getSSHDKVMap_depends_on_five_fields [OF a1 a2 a3 a4]) (simp_all add: zero_SSHD_def)
  with diff show ?thesis by simp
qed

section \<open>Properties of the document decoder\<close>

text \<open>When a decoder succeeds, and what it has decoded then.\<close>

lemma and_then_Inr: "and_then m f = Inr y \<longleftrightarrow> (\<exists>x. m = Inr x \<and> f x = Inr y)"
  by (cases m) (simp_all add: and_then_def)

lemma struct_Inr: "struct n body = Inr y \<longleftrightarrow> (\<exists>kvs. n = Mapping kvs \<and> body kvs = Inr y)"
  by (cases n) (simp_all add: struct_def)

lemma pointer_Inr: "pointer dec n = Inr y \<longleftrightarrow> (\<exists>x. dec n = Inr x \<and> y = Some x)"
  by (auto simp: pointer_def and_then_Inr)

lemma traverse_Inr: "traverse f xs = Inr ys \<longleftrightarrow> list_all2 (\<lambda>x y. f x = Inr y) xs ys"
proof (induction xs arbitrary: ys)
  case Nil
  then show ?case by auto
next
  case (Cons x xs)
  then show ?case
    by (cases ys) (auto simp: and_then_Inr)
qed

lemma slice_Inr:
  "slice dec n = Inr ys \<longleftrightarrow> (\<exists>ns. n = Sequence ns \<and> list_all2 (\<lambda>x y. dec x = Inr y) ns ys)"
  by (cases n) (simp_all add: traverse_Inr)

lemma decode_string_Inr: "decode_string n = Inr s \<longleftrightarrow> text_of n = Some s"
  by (cases n) auto

lemma strings_of_Some:
  "strings_of ns = Some xs \<longleftrightarrow> list_all2 (\<lambda>n x. decode_string n = Inr x) ns xs"
proof (induction ns arbitrary: xs)
  case Nil
  then show ?case by auto
next
  case (Cons n ns)
  then show ?case
    by (cases xs) (auto simp: decode_string_Inr split: option.splits)
qed

lemma decode_MultiString_Inr: "decode_MultiString n = Inr ms \<longleftrightarrow> flexible (Some n) = Some ms"
proof (cases n)
  case (Scalar_string s)
  then show ?thesis
    by (auto simp: decode_MultiString_def UnmarshalYAML_def unmarshal_of_def)
next
  case (Scalar_int i)
  then show ?thesis
    by (auto simp: decode_MultiString_def UnmarshalYAML_def unmarshal_of_def)
next
  case (Scalar_bool b)
  then show ?thesis
    by (auto simp: decode_MultiString_def UnmarshalYAML_def unmarshal_of_def)
next
  case (Sequence ns)
  show ?thesis
  proof (cases "traverse decode_string ns")
    case (Inl e)
    then have "strings_of ns \<noteq> Some ms"
      by (simp add: strings_of_Some flip: traverse_Inr)
    with Inl Sequence show ?thesis
      by (simp add: decode_MultiString_def UnmarshalYAML_def unmarshal_of_def)
  next
    case (Inr xs)
    then have "strings_of ns = Some xs"
      by (simp add: strings_of_Some flip: traverse_Inr)
    with Inr Sequence show ?thesis
      by (auto simp: decode_MultiString_def UnmarshalYAML_def unmarshal_of_def)
  qed
next
  case (Mapping kvs)
  then show ?thesis
    by (simp add: decode_MultiString_def UnmarshalYAML_def unmarshal_of_def)
qed

lemma decode_MultiString_Inl:
  "flexible (Some n) = None \<Longrightarrow> \<exists>msg. decode_MultiString n = Inl (DecodeError msg)"
proof (cases "decode_MultiString n")
  case (Inl e)
  then show ?thesis by (cases e) simp
next
  case (Inr ms)
  assume "flexible (Some n) = None"
  with Inr show ?thesis by (simp add: decode_MultiString_Inr)
qed

lemma field_MultiString:
  "field kvs k [] decode_MultiString = Inr ms \<longleftrightarrow> flexible (map_of kvs k) = Some ms"
  by (cases "map_of kvs k") (auto simp: field_def decode_MultiString_Inr)

lemma field_pointer:
  "field kvs k None (pointer dec) = Inr v \<longleftrightarrow>
     (case map_of kvs k of None \<Rightarrow> v = None | Some n \<Rightarrow> \<exists>x. dec n = Inr x \<and> v = Some x)"
  by (cases "map_of kvs k") (auto simp: field_def pointer_Inr)

lemma field_slice:
  "field kvs k [] (slice dec) = Inr v \<longleftrightarrow>
     (case map_of kvs k of None \<Rightarrow> v = []
      | Some n \<Rightarrow> \<exists>ns. n = Sequence ns \<and> list_all2 (\<lambda>x y. dec x = Inr y) ns v)"
  by (cases "map_of kvs k") (auto simp: field_def slice_Inr)

lemma decode_PackagesConfig_fields:
  assumes "decode_PackagesConfig n = Inr pc"
  shows "\<exists>kvs. n = Mapping kvs
     \<and> flexible (map_of kvs ''repositories'') = Some (Repositories pc)
     \<and> flexible (map_of kvs ''install'') = Some (Install pc)
     \<and> flexible (map_of kvs ''uninstall'') = Some (Uninstall pc)"
  using assms unfolding decode_PackagesConfig_def struct_Inr and_then_Inr field_MultiString
  by auto

lemma decode_ResolvConfiguration_fields:
  assumes "decode_ResolvConfiguration n = Inr r"
  shows "\<exists>kvs. n = Mapping kvs
     \<and> flexible (map_of kvs ''nameservers'') = Some (NameServers r)
     \<and> flexible (map_of kvs ''search_domains'') = Some (SearchDomains r)"
  using assms unfolding decode_ResolvConfiguration_def struct_Inr and_then_Inr field_MultiString
  by auto

lemma decode_NTPConfiguration_fields:
  assumes "decode_NTPConfiguration n = Inr t"
  shows "\<exists>kvs. n = Mapping kvs
     \<and> flexible (map_of kvs ''pools'') = Some (Pools t)
     \<and> flexible (map_of kvs ''servers'') = Some (Servers t)"
  using assms unfolding decode_NTPConfiguration_def struct_Inr and_then_Inr field_MultiString
  by auto

lemma decode_User_fields:
  assumes "decode_User n = Inr u"
  shows "\<exists>kvs. n = Mapping kvs \<and> flexible (map_of kvs ''groups'') = Some (User.Groups u)"
  using assms unfolding decode_User_def struct_Inr and_then_Inr field_MultiString
  by auto

lemma decode_NetworkSettings_fields:
  assumes "decode_NetworkSettings n = Inr nw"
  shows "\<exists>kvs. n = Mapping kvs
     \<and> field kvs ''resolv_conf'' None (pointer decode_ResolvConfiguration) = Inr (ResolvConf nw)
     \<and> field kvs ''ntp'' None (pointer decode_NTPConfiguration) = Inr (NTP nw)"
  using assms unfolding decode_NetworkSettings_def struct_Inr and_then_Inr
  by auto

lemma decode_AlpineData_fields:
  assumes "decode_AlpineData n = Inr d"
  shows "\<exists>kvs. n = Mapping kvs
     \<and> field kvs ''network'' None (pointer decode_NetworkSettings) = Inr (Network d)
     \<and> field kvs ''packages'' None (pointer decode_PackagesConfig) = Inr (Packages d)
     \<and> field kvs ''sshd'' None (pointer decode_SSHD) = Inr (SSHDConfig d)
     \<and> flexible (map_of kvs ''groups'') = Some (AlpineData.Groups d)
     \<and> field kvs ''users'' [] (slice decode_User) = Inr (Users d)
     \<and> field kvs ''runcmd'' [] (slice decode_MultiString) = Inr (RunCMD d)"
  using assms unfolding decode_AlpineData_def struct_Inr and_then_Inr field_MultiString
  by auto

text \<open>
  In a decoded document every FlexibleList field holds the list that \<open>flexible\<close> gives
  for the field's place in the document.
\<close>

lemma runcmd_index_Some: "runcmd_index p = Some i \<longleftrightarrow> p = [Key ''runcmd'', Index i]"
  by (induction p rule: runcmd_index.induct) auto

lemma user_groups_index_Some:
  "user_groups_index p = Some i \<longleftrightarrow> p = [Key ''users'', Index i, Key ''groups'']"
  by (induction p rule: user_groups_index.induct) auto

lemma flexible_groups:
  assumes "decode_AlpineData doc = Inr d"
  shows "flexible (at_path doc [Key ''groups'']) = Some (AlpineData.Groups d)"
  using decode_AlpineData_fields [OF assms]
  by (auto split: option.splits)

lemma flexible_runcmd:
  assumes "decode_AlpineData doc = Inr d" and "i < length (RunCMD d)"
  shows "flexible (at_path doc [Key ''runcmd'', Index i]) = Some (RunCMD d ! i)"
proof -
  from decode_AlpineData_fields [OF assms(1)] obtain kvs where
    doc: "doc = Mapping kvs" and
    f: "field kvs ''runcmd'' [] (slice decode_MultiString) = Inr (RunCMD d)"
    by blast
  from f assms(2) obtain ns where
    ns: "map_of kvs ''runcmd'' = Some (Sequence ns)" and
    all: "list_all2 (\<lambda>x y. decode_MultiString x = Inr y) ns (RunCMD d)"
    by (auto simp: field_slice split: option.splits)
  from all assms(2) have "i < length ns" and "decode_MultiString (ns ! i) = Inr (RunCMD d ! i)"
    by (auto simp: list_all2_conv_all_nth)
  with doc ns show ?thesis
    by (simp add: decode_MultiString_Inr)
qed

lemma flexible_user_groups:
  assumes "decode_AlpineData doc = Inr d" and "i < length (Users d)"
  shows "flexible (at_path doc [Key ''users'', Index i, Key ''groups''])
     = Some (User.Groups (Users d ! i))"
proof -
  from decode_AlpineData_fields [OF assms(1)] obtain kvs where
    doc: "doc = Mapping kvs" and
    f: "field kvs ''users'' [] (slice decode_User) = Inr (Users d)"
    by blast
  from f assms(2) obtain ns where
    ns: "map_of kvs ''users'' = Some (Sequence ns)" and
    all: "list_all2 (\<lambda>x y. decode_User x = Inr y) ns (Users d)"
    by (auto simp: field_slice split: option.splits)
  from all assms(2) have i: "i < length ns" and "decode_User (ns ! i) = Inr (Users d ! i)"
    by (auto simp: list_all2_conv_all_nth)
  from decode_User_fields [OF this(2)] obtain ukvs where
    "ns ! i = Mapping ukvs" and
    "flexible (map_of ukvs ''groups'') = Some (User.Groups (Users d ! i))"
    by blast
  with doc ns i show ?thesis
    by (auto split: option.splits)
qed

lemma flexible_packages:
  assumes "decode_AlpineData doc = Inr d" and "Packages d = Some pc"
  shows "flexible (at_path doc [Key ''packages'', Key ''repositories'']) = Some (Repositories pc)"
    and "flexible (at_path doc [Key ''packages'', Key ''install'']) = Some (Install pc)"
    and "flexible (at_path doc [Key ''packages'', Key ''uninstall'']) = Some (Uninstall pc)"
proof -
  from decode_AlpineData_fields [OF assms(1)] obtain kvs where
    doc: "doc = Mapping kvs" and
    f: "field kvs ''packages'' None (pointer decode_PackagesConfig) = Inr (Packages d)"
    by blast
  from f assms(2) obtain pn where
    pn: "map_of kvs ''packages'' = Some pn" and "decode_PackagesConfig pn = Inr pc"
    by (auto simp: field_pointer split: option.splits)
  from decode_PackagesConfig_fields [OF this(2)] obtain pkvs where
    "pn = Mapping pkvs"
    "flexible (map_of pkvs ''repositories'') = Some (Repositories pc)"
    "flexible (map_of pkvs ''install'') = Some (Install pc)"
    "flexible (map_of pkvs ''uninstall'') = Some (Uninstall pc)"
    by blast
  with doc pn
  show "flexible (at_path doc [Key ''packages'', Key ''repositories'']) = Some (Repositories pc)"
    and "flexible (at_path doc [Key ''packages'', Key ''install'']) = Some (Install pc)"
    and "flexible (at_path doc [Key ''packages'', Key ''uninstall'']) = Some (Uninstall pc)"
    by (auto split: option.splits)
qed

lemma network_section:
  assumes "decode_AlpineData doc = Inr d" and "Network d = Some nw"
  shows "\<exists>kvs nkvs. doc = Mapping kvs \<and> map_of kvs ''network'' = Some (Mapping nkvs)
     \<and> field nkvs ''resolv_conf'' None (pointer decode_ResolvConfiguration) = Inr (ResolvConf nw)
     \<and> field nkvs ''ntp'' None (pointer decode_NTPConfiguration) = Inr (NTP nw)"
proof -
  from decode_AlpineData_fields [OF assms(1)] obtain kvs where
    doc: "doc = Mapping kvs" and
    f: "field kvs ''network'' None (pointer decode_NetworkSettings) = Inr (Network d)"
    by blast
  from f assms(2) obtain n where
    n: "map_of kvs ''network'' = Some n" and "decode_NetworkSettings n = Inr nw"
    by (auto simp: field_pointer split: option.splits)
  from decode_NetworkSettings_fields [OF this(2)] doc n show ?thesis
    by blast
qed

lemma flexible_resolv_conf:
  assumes "decode_AlpineData doc = Inr d" and "Network d = Some nw" and "ResolvConf nw = Some r"
  shows "flexible (at_path doc [Key ''network'', Key ''resolv_conf'', Key ''nameservers''])
       = Some (NameServers r)"
    and "flexible (at_path doc [Key ''network'', Key ''resolv_conf'', Key ''search_domains''])
       = Some (SearchDomains r)"
proof -
  from network_section [OF assms(1,2)] obtain kvs nkvs where
    doc: "doc = Mapping kvs" "map_of kvs ''network'' = Some (Mapping nkvs)" and
    f: "field nkvs ''resolv_conf'' None (pointer decode_ResolvConfiguration) = Inr (ResolvConf nw)"
    by blast
  from f assms(3) obtain rn where
    rn: "map_of nkvs ''resolv_conf'' = Some rn" and "decode_ResolvConfiguration rn = Inr r"
    by (auto simp: field_pointer split: option.splits)
  from decode_ResolvConfiguration_fields [OF this(2)] obtain rkvs where
    "rn = Mapping rkvs"
    "flexible (map_of rkvs ''nameservers'') = Some (NameServers r)"
    "flexible (map_of rkvs ''search_domains'') = Some (SearchDomains r)"
    by blast
  with doc rn
  show "flexible (at_path doc [Key ''network'', Key ''resolv_conf'', Key ''nameservers''])
       = Some (NameServers r)"
    and "flexible (at_path doc [Key ''network'', Key ''resolv_conf'', Key ''search_domains''])
       = Some (SearchDomains r)"
    by (auto split: option.splits)
qed

lemma flexible_ntp:
  assumes "decode_AlpineData doc = Inr d" and "Network d = Some nw" and "NTP nw = Some t"
  shows "flexible (at_path doc [Key ''network'', Key ''ntp'', Key ''pools'']) = Some (Pools t)"
    and "flexible (at_path doc [Key ''network'', Key ''ntp'', Key ''servers'']) = Some (Servers t)"
proof -
  from network_section [OF assms(1,2)] obtain kvs nkvs where
    doc: "doc = Mapping kvs" "map_of kvs ''network'' = Some (Mapping nkvs)" and
    f: "field nkvs ''ntp'' None (pointer decode_NTPConfiguration) = Inr (NTP nw)"
    by blast
  from f assms(3) obtain tn where
    tn: "map_of nkvs ''ntp'' = Some tn" and "decode_NTPConfiguration tn = Inr t"
    by (auto simp: field_pointer split: option.splits)
  from decode_NTPConfiguration_fields [OF this(2)] obtain tkvs where
    "tn = Mapping tkvs"
    "flexible (map_of tkvs ''pools'') = Some (Pools t)"
    "flexible (map_of tkvs ''servers'') = Some (Servers t)"
    by blast
  with doc tn
  show "flexible (at_path doc [Key ''network'', Key ''ntp'', Key ''pools'']) = Some (Pools t)"
    and "flexible (at_path doc [Key ''network'', Key ''ntp'', Key ''servers'']) = Some (Servers t)"
    by (auto split: option.splits)
qed

lemma flexible_field_holds:
  assumes dec: "decode_AlpineData doc = Inr d" and fld: "flexible_field d p = Some ms"
  shows "flexible (at_path doc p) = Some ms"
proof -
  consider
      (groups) "p = [Key ''groups'']" "ms = AlpineData.Groups d"
    | (repositories) pc where "p = [Key ''packages'', Key ''repositories'']"
        "Packages d = Some pc" "ms = Repositories pc"
    | (install) pc where "p = [Key ''packages'', Key ''install'']"
        "Packages d = Some pc" "ms = Install pc"
    | (uninstall) pc where "p = [Key ''packages'', Key ''uninstall'']"
        "Packages d = Some pc" "ms = Uninstall pc"
    | (nameservers) nw r where "p = [Key ''network'', Key ''resolv_conf'', Key ''nameservers'']"
        "Network d = Some nw" "ResolvConf nw = Some r" "ms = NameServers r"
    | (search_domains) nw r where
        "p = [Key ''network'', Key ''resolv_conf'', Key ''search_domains'']"
        "Network d = Some nw" "ResolvConf nw = Some r" "ms = SearchDomains r"
    | (pools) nw t where "p = [Key ''network'', Key ''ntp'', Key ''pools'']"
        "Network d = Some nw" "NTP nw = Some t" "ms = Pools t"
    | (servers) nw t where "p = [Key ''network'', Key ''ntp'', Key ''servers'']"
        "Network d = Some nw" "NTP nw = Some t" "ms = Servers t"
    | (runcmd) i where "p = [Key ''runcmd'', Index i]" "i < length (RunCMD d)"
        "ms = RunCMD d ! i"
    | (user_groups) i where "p = [Key ''users'', Index i, Key ''groups'']"
        "i < length (Users d)" "ms = User.Groups (Users d ! i)"
    using fld unfolding flexible_field_def
    by (auto simp: runcmd_index_Some user_groups_index_Some bind_eq_Some_conv
        split: if_splits option.splits)
  then show ?thesis
  proof cases
    case groups
    with flexible_groups [OF dec] show ?thesis by simp
  next
    case repositories
    with flexible_packages(1) [OF dec repositories(2)] show ?thesis by simp
  next
    case install
    with flexible_packages(2) [OF dec install(2)] show ?thesis by simp
  next
    case uninstall
    with flexible_packages(3) [OF dec uninstall(2)] show ?thesis by simp
  next
    case nameservers
    with flexible_resolv_conf(1) [OF dec nameservers(2,3)] show ?thesis by simp
  next
    case search_domains
    with flexible_resolv_conf(2) [OF dec search_domains(2,3)] show ?thesis by simp
  next
    case pools
    with flexible_ntp(1) [OF dec pools(2,3)] show ?thesis by simp
  next
    case servers
    with flexible_ntp(2) [OF dec servers(2,3)] show ?thesis by simp
  next
    case runcmd
    with flexible_runcmd [OF dec runcmd(2)] show ?thesis by simp
  next
    case user_groups
    with flexible_user_groups [OF dec user_groups(2)] show ?thesis by simp
  qed
qed

lemma strings_of_map: "strings_of (map Scalar_string xs) = Some xs"
  by (induction xs) simp_all

lemma flexible_field_exists:
  assumes dec: "decode_AlpineData doc = Inr d" and path: "flexible_path p"
    and at: "at_path doc p = Some n"
  shows "\<exists>ms. flexible_field d p = Some ms"
proof -
  from decode_AlpineData_fields [OF dec] obtain kvs where
    doc: "doc = Mapping kvs" and
    nw: "field kvs ''network'' None (pointer decode_NetworkSettings) = Inr (Network d)" and
    pk: "field kvs ''packages'' None (pointer decode_PackagesConfig) = Inr (Packages d)" and
    us: "field kvs ''users'' [] (slice decode_User) = Inr (Users d)" and
    rc: "field kvs ''runcmd'' [] (slice decode_MultiString) = Inr (RunCMD d)"
    by blast
  have packages: "Packages d \<noteq> None" if "map_of kvs ''packages'' \<noteq> None"
    using pk that by (auto simp: field_pointer split: option.splits)
  have network: "\<exists>nw nkvs. Network d = Some nw \<and> map_of kvs ''network'' = Some (Mapping nkvs)
      \<and> field nkvs ''resolv_conf'' None (pointer decode_ResolvConfiguration) = Inr (ResolvConf nw)
      \<and> field nkvs ''ntp'' None (pointer decode_NTPConfiguration) = Inr (NTP nw)"
    if "map_of kvs ''network'' \<noteq> None"
  proof -
    from nw that obtain x where x: "Network d = Some x"
      by (auto simp: field_pointer split: option.splits)
    from network_section [OF dec x] doc x show ?thesis by auto
  qed
  have resolv: "\<exists>nw r. Network d = Some nw \<and> ResolvConf nw = Some r"
    if "at_path doc [Key ''network'', Key ''resolv_conf'', Key k] = Some n" for k
  proof -
    from that doc have "map_of kvs ''network'' \<noteq> None"
      by (auto split: option.splits)
    from network [OF this] obtain x nkvs where
      x: "Network d = Some x" "map_of kvs ''network'' = Some (Mapping nkvs)"
      "field nkvs ''resolv_conf'' None (pointer decode_ResolvConfiguration) = Inr (ResolvConf x)"
      by blast
    with that doc have "map_of nkvs ''resolv_conf'' \<noteq> None"
      by (auto split: option.splits)
    with x show ?thesis
      by (auto simp: field_pointer split: option.splits)
  qed
  have ntp: "\<exists>nw t. Network d = Some nw \<and> NTP nw = Some t"
    if "at_path doc [Key ''network'', Key ''ntp'', Key k] = Some n" for k
  proof -
    from that doc have "map_of kvs ''network'' \<noteq> None"
      by (auto split: option.splits)
    from network [OF this] obtain x nkvs where
      x: "Network d = Some x" "map_of kvs ''network'' = Some (Mapping nkvs)"
      "field nkvs ''ntp'' None (pointer decode_NTPConfiguration) = Inr (NTP x)"
      by blast
    with that doc have "map_of nkvs ''ntp'' \<noteq> None"
      by (auto split: option.splits)
    with x show ?thesis
      by (auto simp: field_pointer split: option.splits)
  qed
  have runcmd: "i < length (RunCMD d)" if "at_path doc [Key ''runcmd'', Index i] = Some n" for i
  proof -
    from that doc obtain c where c: "map_of kvs ''runcmd'' = Some c" "child c (Index i) = Some n"
      by (auto split: option.splits)
    with rc obtain ns where "c = Sequence ns" "length ns = length (RunCMD d)"
      by (auto simp: field_slice dest: list_all2_lengthD)
    with c show ?thesis by (auto split: if_splits)
  qed
  have users: "i < length (Users d)"
    if "at_path doc [Key ''users'', Index i, Key ''groups''] = Some n" for i
  proof -
    from that doc obtain c c' where
      c: "map_of kvs ''users'' = Some c" "child c (Index i) = Some c'"
      by (auto split: option.splits)
    with us obtain ns where "c = Sequence ns" "length ns = length (Users d)"
      by (auto simp: field_slice dest: list_all2_lengthD)
    with c show ?thesis by (auto split: if_splits)
  qed
  from path have
    "p = [Key ''groups'']
     \<or> p = [Key ''packages'', Key ''repositories'']
     \<or> p = [Key ''packages'', Key ''install'']
     \<or> p = [Key ''packages'', Key ''uninstall'']
     \<or> p = [Key ''network'', Key ''resolv_conf'', Key ''nameservers'']
     \<or> p = [Key ''network'', Key ''resolv_conf'', Key ''search_domains'']
     \<or> p = [Key ''network'', Key ''ntp'', Key ''pools'']
     \<or> p = [Key ''network'', Key ''ntp'', Key ''servers'']
     \<or> (\<exists>i. p = [Key ''runcmd'', Index i])
     \<or> (\<exists>i. p = [Key ''users'', Index i, Key ''groups''])"
    by (simp only: flexible_path_def not_None_eq runcmd_index_Some user_groups_index_Some)
  then show ?thesis
  proof (elim disjE exE)
    assume "p = [Key ''groups'']"
    then show ?thesis by (simp add: flexible_field_def)
  next
    assume p: "p = [Key ''packages'', Key ''repositories'']"
    with at doc have "map_of kvs ''packages'' \<noteq> None" by (auto split: option.splits)
    from packages [OF this] p show ?thesis by (auto simp: flexible_field_def)
  next
    assume p: "p = [Key ''packages'', Key ''install'']"
    with at doc have "map_of kvs ''packages'' \<noteq> None" by (auto split: option.splits)
    from packages [OF this] p show ?thesis by (auto simp: flexible_field_def)
  next
    assume p: "p = [Key ''packages'', Key ''uninstall'']"
    with at doc have "map_of kvs ''packages'' \<noteq> None" by (auto split: option.splits)
    from packages [OF this] p show ?thesis by (auto simp: flexible_field_def)
  next
    assume p: "p = [Key ''network'', Key ''resolv_conf'', Key ''nameservers'']"
    with resolv [of "''nameservers''"] at show ?thesis by (auto simp: flexible_field_def)
  next
    assume p: "p = [Key ''network'', Key ''resolv_conf'', Key ''search_domains'']"
    with resolv [of "''search_domains''"] at show ?thesis by (auto simp: flexible_field_def)
  next
    assume p: "p = [Key ''network'', Key ''ntp'', Key ''pools'']"
    with ntp [of "''pools''"] at show ?thesis by (auto simp: flexible_field_def)
  next
    assume p: "p = [Key ''network'', Key ''ntp'', Key ''servers'']"
    with ntp [of "''servers''"] at show ?thesis by (auto simp: flexible_field_def)
  next
    fix i
    assume p: "p = [Key ''runcmd'', Index i]"
    with runcmd [of i] at show ?thesis by (simp add: flexible_field_def)
  next
    fix i
    assume p: "p = [Key ''users'', Index i, Key ''groups'']"
    with users [of i] at show ?thesis by (simp add: flexible_field_def)
  qed
qed

lemma malformed_flexible_fails:
  assumes "flexible_path p" and "at_path doc p = Some n" and "flexible (Some n) = None"
  shows "\<exists>msg. decode_AlpineData doc = Inl (DecodeError msg)"
proof (cases "decode_AlpineData doc")
  case (Inl e)
  then show ?thesis by (cases e) simp
next
  case (Inr d)
  from flexible_field_exists [OF Inr assms(1,2)] obtain ms where "flexible_field d p = Some ms"
    by blast
  from flexible_field_holds [OF Inr this] assms(2,3) show ?thesis by simp
qed

lemma decode_doc_flexible: "decode_AlpineData doc_flexible = Inr data_flexible"
  by (simp add: doc_flexible_def data_flexible_def decode_AlpineData_def struct_def
      field_def and_then_def pointer_def decode_PackagesConfig_def decode_MultiString_def
      UnmarshalYAML_def unmarshal_of_def zero_AlpineData_def zero_PackagesConfig_def)

text \<open>
  Claim C2, as amended. A decode source for which the attempt on a list of strings and
  the attempt on a single string both fail makes \<open>UnmarshalYAML\<close> return an error
  (that of the second attempt). A source value that has no list, that is a mapping or a
  list that holds a mapping or a list, makes the decode of a FlexibleList field fail with
  a \<open>DecodeError\<close>; and a document that has such a value at the place of any
  FlexibleList field fails to decode as a whole, with a \<open>DecodeError\<close> and no decoded
  data. A number is not such a value: see below.
\<close>

theorem malformed_flexible_list_fails_document:
  "(into_strings u [] = (Some e1, vs) \<longrightarrow> into_string u [] = (Some e2, s) \<longrightarrow>
      fst (UnmarshalYAML ms u) = Some e2)
   \<and> (flexible (Some n) = None \<longrightarrow> (\<exists>msg. decode_MultiString n = Inl (DecodeError msg)))
   \<and> (flexible_path p \<longrightarrow> at_path doc p = Some n \<longrightarrow> flexible (Some n) = None \<longrightarrow>
        (\<exists>msg. decode_AlpineData doc = Inl (DecodeError msg)))"
  using decode_MultiString_Inl [of n] malformed_flexible_fails [of p doc n]
  by (auto simp: UnmarshalYAML_def)

theorem malformed_flexible_list_fails_document_witness:
  "fst (UnmarshalYAML [''old''] source_other) = Some ''cannot unmarshal into string''
   \<and> (\<exists>msg. decode_MultiString (Mapping [(''admin'', Scalar_string ''wheel'')])
         = Inl (DecodeError msg))
   \<and> (\<exists>msg. decode_AlpineData doc_groups_mapping = Inl (DecodeError msg))
   \<and> (\<exists>msg. decode_AlpineData doc_install_nested = Inl (DecodeError msg))
   \<and> (\<exists>msg. decode_AlpineData doc_user_groups_mapping = Inl (DecodeError msg))"
proof -
  let ?m = "Mapping [(''admin'', Scalar_string ''wheel'')]"
  let ?l = "Sequence [Scalar_string ''curl'', Sequence [Scalar_string ''vim'']]"
  let ?u = "Mapping [(''primary'', Scalar_string ''wheel'')]"
  have a: "into_strings source_other [] = (Some ''cannot unmarshal into []string'', [''partial''])"
    and b: "into_string source_other [] = (Some ''cannot unmarshal into string'', ''partial'')"
    by (simp_all add: source_other_def)
  have c: "flexible (Some ?m) = None" "flexible (Some ?l) = None" "flexible (Some ?u) = None"
    by simp_all
  have d: "flexible_path [Key ''groups'']" "flexible_path [Key ''packages'', Key ''install'']"
    "flexible_path [Key ''users'', Index 0, Key ''groups'']"
    by (simp_all add: flexible_path_def)
  have e: "at_path doc_groups_mapping [Key ''groups''] = Some ?m"
    by (simp add: doc_groups_mapping_def)
  have f: "at_path doc_install_nested [Key ''packages'', Key ''install''] = Some ?l"
    by (simp add: doc_install_nested_def)
  have g: "at_path doc_user_groups_mapping [Key ''users'', Index 0, Key ''groups''] = Some ?u"
    by (simp add: doc_user_groups_mapping_def)
  from malformed_flexible_list_fails_document [of source_other
      "''cannot unmarshal into []string''" "[''partial'']" "''cannot unmarshal into string''"
      "''partial''" "[''old'']" ?m "[Key ''groups'']" doc_groups_mapping]
    malformed_flexible_list_fails_document [of source_other
      "''cannot unmarshal into []string''" "[''partial'']" "''cannot unmarshal into string''"
      "''partial''" "[''old'']" ?l "[Key ''packages'', Key ''install'']" doc_install_nested]
    malformed_flexible_list_fails_document [of source_other
      "''cannot unmarshal into []string''" "[''partial'']" "''cannot unmarshal into string''"
      "''partial''" "[''old'']" ?u "[Key ''users'', Index 0, Key ''groups'']"
      doc_user_groups_mapping]
    a b c d e f g
  show ?thesis by blast
qed

text \<open>
  Claim C2 as it is stated does not hold: a number is neither a list of strings nor a
  single string, and a FlexibleList field decodes it. For the number 42 the attempt on a
  list of strings fails, the attempt on a single string writes the text \<^verbatim>\<open>42\<close>, and
  \<open>UnmarshalYAML\<close> returns no error and the one-element list of that text; the document
  whose \<^verbatim>\<open>groups\<close> is 42 decodes.
\<close>

theorem number_is_decoded_counterexample:
  "fst (into_strings (unmarshal_of (Scalar_int 42)) []) \<noteq> None
   \<and> UnmarshalYAML [] (unmarshal_of (Scalar_int 42)) = (None, [''42''])
   \<and> decode_MultiString (Scalar_int 42) = Inr [''42'']
   \<and> decode_AlpineData doc_groups_number =
       Inr (zero_AlpineData\<lparr>AlpineData.Groups := [''42''], TimeZone := ''UTC''\<rparr>)"
  by (simp add: doc_groups_number_def decode_AlpineData_def struct_def field_def
      and_then_def decode_MultiString_def UnmarshalYAML_def unmarshal_of_def
      zero_AlpineData_def Itoa_42)

text \<open>
  Claim C3. After a successful decode of a document, every FlexibleList field of the
  decoded data holds a list: the empty list when the field's key is absent from the
  document, the one-element list when the document has a single string there, and the
  list itself when the document has a list of strings there. The fields are lists by
  their type; Go's \<^verbatim>\<open>nil\<close> slice is the empty list.
\<close>

theorem decoded_flexible_fields_are_lists:
  assumes "decode_AlpineData doc = Inr d" and "flexible_field d p = Some ms"
  shows "flexible (at_path doc p) = Some ms
     \<and> (at_path doc p = None \<longrightarrow> ms = [])
     \<and> (\<forall>s. at_path doc p = Some (Scalar_string s) \<longrightarrow> ms = [s])
     \<and> (\<forall>xs. at_path doc p = Some (Sequence (map Scalar_string xs)) \<longrightarrow> ms = xs)"
  using flexible_field_holds [OF assms] by (auto simp: strings_of_map)

theorem decoded_flexible_fields_are_lists_witness:
  "decode_AlpineData doc_flexible = Inr data_flexible
   \<and> AlpineData.Groups data_flexible = [''wheel'']
   \<and> flexible (at_path doc_flexible [Key ''groups'']) = Some [''wheel'']
   \<and> flexible_field data_flexible [Key ''packages'', Key ''repositories''] = Some []
   \<and> at_path doc_flexible [Key ''packages'', Key ''repositories''] = None
   \<and> flexible (at_path doc_flexible [Key ''packages'', Key ''install''])
       = Some [''curl'', ''vim'', ''curl'']
   \<and> flexible (at_path doc_flexible [Key ''runcmd'', Index 1]) = Some [''echo'', ''done'']"
proof -
  note dec = decode_doc_flexible
  have a: "flexible_field data_flexible [Key ''groups''] = Some [''wheel'']"
    by (simp add: flexible_field_def data_flexible_def)
  have b: "flexible_field data_flexible [Key ''packages'', Key ''repositories''] = Some []"
    by (simp add: flexible_field_def data_flexible_def zero_PackagesConfig_def)
  have c: "flexible_field data_flexible [Key ''packages'', Key ''install'']
      = Some [''curl'', ''vim'', ''curl'']"
    by (simp add: flexible_field_def data_flexible_def)
  have d: "flexible_field data_flexible [Key ''runcmd'', Index 1] = Some [''echo'', ''done'']"
    by (simp add: flexible_field_def data_flexible_def)
  have e: "at_path doc_flexible [Key ''packages'', Key ''repositories''] = None"
    by (simp add: doc_flexible_def)
  have g: "AlpineData.Groups data_flexible = [''wheel'']"
    by (simp add: data_flexible_def)
  from decoded_flexible_fields_are_lists [OF dec a]
    decoded_flexible_fields_are_lists [OF dec b]
    decoded_flexible_fields_are_lists [OF dec c]
    decoded_flexible_fields_are_lists [OF dec d]
    dec b e g
  show ?thesis by simp
qed

text \<open>
  Claim C7. Decoding an SSH daemon section that has the key \<^verbatim>\<open>port\<close> with an integer
  and no other key succeeds with that port and every other field of the section at its
  zero value; a document with this section alone decodes to the zero configuration with
  this section, and in any document that decodes, this section decodes so. The default
  values of \<open>InitAlpineData\<close> play no part in decoding.
\<close>

theorem decode_sshd_port_only:
  assumes "map_of skvs = [''port'' \<mapsto> Scalar_int port]"
  shows "decode_SSHD (Mapping skvs) =
       Inr \<lparr>Port = port, ListenAddress = [], AuthorizedKeys = [], PermitRootLogin = False,
         PermitEmptyPasswords = False, PasswordAuthentication = False\<rparr>
     \<and> decode_AlpineData (Mapping [(''sshd'', Mapping skvs)]) =
       Inr (zero_AlpineData\<lparr>SSHDConfig :=
         Some \<lparr>Port = port, ListenAddress = [], AuthorizedKeys = [], PermitRootLogin = False,
           PermitEmptyPasswords = False, PasswordAuthentication = False\<rparr>\<rparr>)
     \<and> (map_of kvs ''sshd'' = Some (Mapping skvs) \<longrightarrow> decode_AlpineData (Mapping kvs) = Inr d \<longrightarrow>
         SSHDConfig d =
         Some \<lparr>Port = port, ListenAddress = [], AuthorizedKeys = [], PermitRootLogin = False,
           PermitEmptyPasswords = False, PasswordAuthentication = False\<rparr>)"
proof -
  let ?s = "\<lparr>Port = port, ListenAddress = [], AuthorizedKeys = [], PermitRootLogin = False,
         PermitEmptyPasswords = False, PasswordAuthentication = False\<rparr>"
  have s: "decode_SSHD (Mapping skvs) = Inr ?s"
    using assms by (simp add: decode_SSHD_def struct_def field_def and_then_def)
  have doc: "decode_AlpineData (Mapping [(''sshd'', Mapping skvs)]) =
       Inr (zero_AlpineData\<lparr>SSHDConfig := Some ?s\<rparr>)"
    by (simp add: decode_AlpineData_def struct_def field_def and_then_def pointer_def s
        zero_AlpineData_def)
  have any: "SSHDConfig d = Some ?s"
    if "map_of kvs ''sshd'' = Some (Mapping skvs)" "decode_AlpineData (Mapping kvs) = Inr d"
  proof -
    from decode_AlpineData_fields [OF that(2)]
    have "field kvs ''sshd'' None (pointer decode_SSHD) = Inr (SSHDConfig d)"
      by auto
    with that(1) s show ?thesis
      by (simp add: field_pointer)
  qed
  from s doc any show ?thesis by blast
qed

theorem decode_sshd_port_only_witness:
  "decode_AlpineData doc_sshd_port =
     Inr (zero_AlpineData\<lparr>SSHDConfig :=
       Some \<lparr>Port = 2222, ListenAddress = [], AuthorizedKeys = [], PermitRootLogin = False,
         PermitEmptyPasswords = False, PasswordAuthentication = False\<rparr>\<rparr>)
   \<and> SSHDConfig InitAlpineData \<noteq>
       Some \<lparr>Port = 2222, ListenAddress = [], AuthorizedKeys = [], PermitRootLogin = False,
         PermitEmptyPasswords = False, PasswordAuthentication = False\<rparr>"
proof -
  have h: "map_of [(''port'', Scalar_int 2222)] = [''port'' \<mapsto> Scalar_int 2222]"
    by simp
  have "SSHDConfig InitAlpineData \<noteq>
       Some \<lparr>Port = 2222, ListenAddress = [], AuthorizedKeys = [], PermitRootLogin = False,
         PermitEmptyPasswords = False, PasswordAuthentication = False\<rparr>"
    by (simp add: InitAlpineData_def zero_SSHD_def)
  with decode_sshd_port_only [OF h] show ?thesis
    by (simp add: doc_sshd_port_def)
qed

end
